theory Spec2Isabelle
  imports Main
begin

section \<open>JavaScript values used by the constructs\<close>

text \<open>
  A JavaScript value of type \<open>string | undefined\<close> is a \<open>string option\<close>; \<open>None\<close> is
  \<open>undefined\<close>. The source tests such values by truthiness (\<open>if (props.domainArn)\<close>,
  \<open>a || b\<close>): \<open>undefined\<close> and the empty string are falsy, every other string is
  truthy. An object (a policy document, a principal, an array) is always truthy, so
  an optional object is truthy exactly when it is present. Strings are byte strings
  here; the inputs of interest are ASCII.
\<close>

definition truthy :: "string option \<Rightarrow> bool" where
  "truthy v = (case v of None \<Rightarrow> False | Some s \<Rightarrow> s \<noteq> [])"

text \<open>\<open>a || b\<close> with a string default: a falsy \<open>a\<close> is replaced.\<close>

definition js_or :: "string option \<Rightarrow> string \<Rightarrow> string" where
  "js_or a b = (case a of None \<Rightarrow> b | Some s \<Rightarrow> if s = [] then b else s)"

text \<open>\<open>a ?? b\<close> with a string default: only \<open>undefined\<close> is replaced.\<close>

definition nullish :: "string option \<Rightarrow> string \<Rightarrow> string" where
  "nullish a b = (case a of None \<Rightarrow> b | Some s \<Rightarrow> s)"

text \<open>\<open>s.split(c)\<close> for a one-character separator: \<open>"".split(":")\<close> is \<open>[""]\<close>.\<close>

fun split :: "char \<Rightarrow> string \<Rightarrow> string list" where
  "split c [] = [[]]"
| "split c (x # xs) =
     (if x = c then [] # split c xs
      else (case split c xs of [] \<Rightarrow> [[x]] | y # ys \<Rightarrow> (x # y) # ys))"

text \<open>\<open>xs[i]\<close>: an index out of range reads \<open>undefined\<close>.\<close>

definition index :: "'a list \<Rightarrow> nat \<Rightarrow> 'a option" where
  "index xs i = (if i < length xs then Some (xs ! i) else None)"

text \<open>\<open>xs.join(sep)\<close>.\<close>

fun join :: "string \<Rightarrow> string list \<Rightarrow> string" where
  "join sep [] = []"
| "join sep [x] = x"
| "join sep (x # y # ys) = x @ sep @ join sep (y # ys)"

text \<open>
  What a construct throws: an \<open>Error\<close> with its message, a type error of the run time,
  or a failure of the validator. The validator reports either that a required field
  is missing, or the field and its violations; a violation is held as its message,
  except one below the least length, for which the spec gives no message.
\<close>

datatype violation = BelowMinLength nat | Message string

datatype error =
    Error string
  | TypeError
  | RequiredMissing string
  | ConstraintViolation string "violation list"

section \<open>The ARN codec of the core library\<close>

record Stack =
  account :: string
  region :: string
  partition :: string

record ArnComponents =
  arn_partition :: "string option"
  arn_service :: "string option"
  arn_region :: "string option"
  arn_account :: "string option"
  arn_resource :: string
  arn_resourceName :: "string option"

text \<open>
  \<open>Stack.splitArn\<close> of the core library is not under src/, and the constructs take it
  as a parameter \<open>splitArn\<close>, a function from the ARN string to an error or the
  components: what is proved of them holds whatever that function does.
\<close>

text \<open>
  Modelled from the spec: \<open>Stack.splitArn(arn, ArnFormat.SLASH_RESOURCE_NAME)\<close> on the
  shape \<open>arn:<partition>:<service>:<region>:<account>:<resource>/<resourceName>\<close> that the
  spec (4.2, 6) gives. The string is cut at its colons; the fields are read by their
  position; the sixth field is cut at its first slash into the resource and the
  resource name, and fields after the sixth belong to the resource name. There is no
  check (spec 4.2, 9: the parsing is unguarded): a field that is not there reads
  \<open>undefined\<close>. This function stands for the parameter where a construct is evaluated
  at a given ARN.
\<close>

definition splitArn_spec :: "string \<Rightarrow> error + ArnComponents" where
  "splitArn_spec arn =
     (let components = split CHR '':'' arn;
          resourceTypeOrName = nullish (index components 5) [];
          rest = drop 6 components;
          resource = takeWhile (\<lambda>c. c \<noteq> CHR ''/'') resourceTypeOrName;
          afterSlash = (case dropWhile (\<lambda>c. c \<noteq> CHR ''/'') resourceTypeOrName of
                          [] \<Rightarrow> None
                        | _ # n \<Rightarrow> Some n)
      in Inr \<lparr> arn_partition = index components 1,
               arn_service = index components 2,
               arn_region = index components 3,
               arn_account = index components 4,
               arn_resource = resource,
               arn_resourceName =
                 (if rest = [] then afterSlash
                  else Some ((case afterSlash of
                                None \<Rightarrow> []
                              | Some n \<Rightarrow> if n = [] then [] else n @ '':'')
                             @ join '':'' rest)) \<rparr>)"

text \<open>
  Modelled from the spec: \<open>Stack.formatArn\<close> of the core library (not under src/) for
  \<open>ArnFormat.SLASH_RESOURCE_NAME\<close>; partition and region are the stack's, the account is
  the one given (spec 4.2: \<open>arn:<partition>:codeartifact:<region>:<account>:domain/<name>\<close>).
\<close>

definition formatArn :: "Stack \<Rightarrow> string \<Rightarrow> string \<Rightarrow> string \<Rightarrow> string \<Rightarrow> string" where
  "formatArn stack service resource resourceName acct =
     join '':'' [''arn'', partition stack, service, region stack, acct, resource @ ''/'' @ resourceName]"

section \<open>Data model\<close>

text \<open>
  The types of the libraries that the constructs use (\<open>aws-kms\<close>, \<open>aws-iam\<close>, the core
  library) are not under src/; each is given as the part of it that the constructs
  read or write.

  \<open>kms.IKey\<close>: the two attributes the constructs read.
\<close>

record IKey =
  keyId :: string
  keyArn :: string

text \<open>\<open>iam.IPrincipal\<close>: the account root principal and any other principal.\<close>

datatype principal = AccountRootPrincipal | ArnPrincipal string

datatype Effect = ALLOW | DENY

text \<open>\<open>iam.PolicyStatement\<close> as its constructor properties.\<close>

record PolicyStatement =
  effect :: Effect
  principals :: "principal list"
  actions :: "string list"
  statement_resources :: "string list"

text \<open>
  Modelled from the spec: \<open>iam.PolicyDocument\<close> of the IAM library, which is not under
  src/. The spec (3, 4.3) has a statement appended to the policy document of its
  resource. A document is a mutable object: \<open>addStatements\<close> pushes onto its statement
  list. Documents live in a store and are referred to by address, so that two
  references to one document see each other's additions. The address of a document
  is its position in the store; \<open>new iam.PolicyDocument()\<close> appends an empty document.
\<close>

record PolicyDocument =
  statements :: "PolicyStatement list"

type_synonym doc_ref = nat

text \<open>
  The mutable world a construct is created in: the environment of the enclosing
  stack, the CloudFormation resources built so far (by construct path), and the store
  of policy documents.
\<close>

record World =
  stack :: Stack
  resources :: "string list"
  documents :: "PolicyDocument list"

definition new_PolicyDocument :: "World \<Rightarrow> doc_ref \<times> World" where
  "new_PolicyDocument w =
     (length (documents w), w\<lparr>documents := documents w @ [\<lparr>statements = []\<rparr>]\<rparr>)"

definition addStatements :: "doc_ref \<Rightarrow> PolicyStatement list \<Rightarrow> World \<Rightarrow> World" where
  "addStatements p ss w =
     w\<lparr>documents := (documents w)[p := (documents w ! p)\<lparr>statements := statements (documents w ! p) @ ss\<rparr>]\<rparr>"

text \<open>
  \<open>IDomain\<close>. A field that a constructor never assigns reads \<open>undefined\<close>, whatever the
  declared type says, so every field is optional here.
\<close>

record IDomain =
  domainArn :: "string option"
  domainName :: "string option"
  domainOwner :: "string option"
  domainEncryptionKey :: "IKey option"
  policyDocument :: "doc_ref option"

definition unassigned_domain :: IDomain where
  "unassigned_domain =
     \<lparr> domainArn = None, domainName = None, domainOwner = None,
       domainEncryptionKey = None, policyDocument = None \<rparr>"

text \<open>
  \<open>DomainAttributes\<close>, the attribute bag of both listings of domain.ts: the first
  declares the ARN, the name and the owner, all optional; the second declares the ARN
  as required and adds the encryption key. At run time a property that was not given
  reads \<open>undefined\<close> in either.
\<close>

record DomainAttributes =
  da_domainArn :: "string option"
  da_domainName :: "string option"
  da_domainOwner :: "string option"
  da_domainEncryptionKey :: "IKey option"

section \<open>Importing a domain\<close>

text \<open>
  \<open>class ImportedDomain\<close> (domain.ts, first listing, lines 103-140). The constructor
  throws on the two exclusive pairs, then runs the ARN branch and the name branch one
  after the other, each guarded by the truthiness of its property. In the ARN branch
  the name is the resource name that \<open>splitArn\<close> gives, and the owner is
  \<open>props.domainArn.split(':')[4]\<close>, read from the string itself.
\<close>

type_synonym splitArn_fun = "string \<Rightarrow> error + ArnComponents"

definition ImportedDomain_fromArn :: "splitArn_fun \<Rightarrow> string \<Rightarrow> IDomain \<Rightarrow> error + IDomain" where
  "ImportedDomain_fromArn splitArn arn this =
     (case splitArn arn of
        Inl e \<Rightarrow> Inl e
      | Inr c \<Rightarrow> Inr (this\<lparr> domainArn := Some arn,
                           domainName := arn_resourceName c,
                           domainOwner := index (split CHR '':'' arn) 4 \<rparr>))"

definition ImportedDomain_fromName :: "Stack \<Rightarrow> string \<Rightarrow> string option \<Rightarrow> IDomain \<Rightarrow> IDomain" where
  "ImportedDomain_fromName st name owner this =
     (let owner' = (if \<not> truthy owner then account st else nullish owner [])
      in this\<lparr> domainName := Some name,
               domainOwner := Some owner',
               domainArn := Some (formatArn st ''codeartifact'' ''domain'' name owner') \<rparr>)"

definition ImportedDomain :: "splitArn_fun \<Rightarrow> Stack \<Rightarrow> DomainAttributes \<Rightarrow> error + IDomain" where
  "ImportedDomain splitArn st props =
     (if truthy (da_domainArn props) \<and> truthy (da_domainName props)
      then Inl (Error ''domainArn and domainName are mutually exclusive'')
      else if truthy (da_domainArn props) \<and> truthy (da_domainOwner props)
      then Inl (Error ''domainArn and domainOwner are mutually exclusive'')
      else
        (case (if truthy (da_domainArn props)
               then ImportedDomain_fromArn splitArn (nullish (da_domainArn props) []) unassigned_domain
               else Inr unassigned_domain) of
           Inl e \<Rightarrow> Inl e
         | Inr this \<Rightarrow>
             Inr (if truthy (da_domainName props)
                  then ImportedDomain_fromName st (nullish (da_domainName props) [])
                         (da_domainOwner props) this
                  else this)))"


definition fromDomainAttributes :: "splitArn_fun \<Rightarrow> Stack \<Rightarrow> DomainAttributes \<Rightarrow> error + IDomain" where
  "fromDomainAttributes splitArn st attrs = ImportedDomain splitArn st attrs"

text \<open>
  \<open>Domain.fromDomainAttributes\<close> of the second listing of domain.ts (lines 421-442),
  where \<open>domainArn\<close> is a required attribute and the name is optional. The name is the
  given one if truthy, else the resource name of the ARN; \<open>splitArn\<close> is only called in
  the second case, and on \<open>undefined\<close> it fails with a type error. The owner field of
  the imported object is never assigned.
\<close>

definition fromDomainAttributes2 :: "splitArn_fun \<Rightarrow> Stack \<Rightarrow> DomainAttributes \<Rightarrow> error + IDomain" where
  "fromDomainAttributes2 splitArn st attrs =
     (case (if truthy (da_domainName attrs) then Inr (da_domainName attrs)
            else (case da_domainArn attrs of
                    None \<Rightarrow> Inl TypeError
                  | Some arn \<Rightarrow>
                      (case splitArn arn of Inl e \<Rightarrow> Inl e | Inr c \<Rightarrow> Inr (arn_resourceName c)))) of
        Inl e \<Rightarrow> Inl e
      | Inr name \<Rightarrow>
          if \<not> truthy name \<or> name = Some []
          then Inl (Error ''Domain name is required as a resource name with the ARN'')
          else Inr (unassigned_domain\<lparr> domainName := name,
                                       domainArn := da_domainArn attrs,
                                       domainEncryptionKey := da_domainEncryptionKey attrs \<rparr>))"

section \<open>Importing a repository\<close>

record IRepository =
  repositoryArn :: "string option"
  repositoryName :: "string option"
  repositoryDescription :: "string option"
  repositoryDomain :: IDomain

record RepositoryAttributes =
  ra_repositoryArn :: "string option"
  ra_repositoryName :: "string option"
  ra_repositoryDescription :: "string option"
  ra_repositoryDomain :: "IDomain option"

text \<open>
  \<open>class ImportedRepository\<close> (repository.ts, lines 175-214). In the ARN branch
  \<open>domainRepo\<close> is \<open>arn.resourceName?.split("/") ?? ""\<close>: the pieces of the resource
  name, or the empty string, every index of which reads \<open>undefined\<close> as every index
  of the empty list does. The repository name is read at index 1 and the domain name
  at index 2.
\<close>

definition ImportedRepository ::
  "splitArn_fun \<Rightarrow> Stack \<Rightarrow> RepositoryAttributes \<Rightarrow> error + IRepository" where
  "ImportedRepository splitArn st props =
     (if truthy (ra_repositoryArn props) \<and> truthy (ra_repositoryName props)
      then Inl (Error ''repositoryArn and repositoryName are mutually exclusive'')
      else if truthy (ra_repositoryArn props) \<and> ra_repositoryDomain props \<noteq> None
      then Inl (Error ''repositoryDomain and repositoryArn are mutually exclusive'')
      else if \<not> truthy (ra_repositoryArn props)
              \<and> \<not> (truthy (ra_repositoryName props) \<and> ra_repositoryDomain props \<noteq> None)
      then Inl (Error ''Either repositoryArn or repositoryName, repositoryDomain must be provided'')
      else if truthy (ra_repositoryArn props)
      then
        (case splitArn (nullish (ra_repositoryArn props) []) of
           Inl e \<Rightarrow> Inl e
         | Inr arn \<Rightarrow>
             let domainRepo = (case arn_resourceName arn of
                                 None \<Rightarrow> []
                               | Some n \<Rightarrow> split CHR ''/'' n)
             in (case fromDomainAttributes splitArn st
                        \<lparr> da_domainArn = None,
                          da_domainName = index domainRepo 2,
                          da_domainOwner = Some (nullish (arn_account arn) []),
                          da_domainEncryptionKey = None \<rparr> of
                   Inl e \<Rightarrow> Inl e
                 | Inr d \<Rightarrow>
                     Inr \<lparr> repositoryArn = ra_repositoryArn props,
                           repositoryName = index domainRepo 1,
                           repositoryDescription = None,
                           repositoryDomain = d \<rparr>))
      else
        (case ra_repositoryDomain props of
           Some d \<Rightarrow>
             if truthy (ra_repositoryName props)
             then Inr \<lparr> repositoryArn = None,
                        repositoryName = ra_repositoryName props,
                        repositoryDescription = None,
                        repositoryDomain = d \<rparr>
             else Inl (Error ''Either repositoryArn or repositoryName, repositoryDomain must be provided'')
         | None \<Rightarrow> Inl (Error ''Either repositoryArn or repositoryName, repositoryDomain must be provided'')))"

definition fromRepositoryArn :: "splitArn_fun \<Rightarrow> Stack \<Rightarrow> string \<Rightarrow> error + IRepository" where
  "fromRepositoryArn splitArn st arn =
     ImportedRepository splitArn st \<lparr> ra_repositoryArn = Some arn, ra_repositoryName = None,
                              ra_repositoryDescription = None, ra_repositoryDomain = None \<rparr>"

section \<open>Regular expressions of the constraint tables\<close>

text \<open>
  The patterns of the source are JavaScript regular expression literals built from
  character classes with bounded or unbounded repetition. An item is an atom with
  its least and greatest number of repetitions (\<open>None\<close>: unbounded); a pattern is a
  sequence of items with the \<open>i\<close> flag and its source text. \<open>test\<close> looks for a match
  anywhere in the string: the patterns are not anchored, and each evaluation of a
  literal yields a fresh object, so the \<open>g\<close> flag's \<open>lastIndex\<close> is 0 at every call.
\<close>

datatype atom = Chars "(char \<times> char) list" | NonSpace

type_synonym item = "atom \<times> nat \<times> nat option"

record RegExp =
  source :: string
  items :: "item list"
  ignoreCase :: bool

text \<open>Character classes are decided on character codes.\<close>

definition in_ranges :: "(char \<times> char) list \<Rightarrow> nat \<Rightarrow> bool" where
  "in_ranges rs n = list_ex (\<lambda>(lo, hi). of_char lo \<le> n \<and> n \<le> of_char hi) rs"

definition toUpperCase :: "nat \<Rightarrow> nat" where
  "toUpperCase n = (if 97 \<le> n \<and> n \<le> 122 then n - 32 else n)"

definition toLowerCase :: "nat \<Rightarrow> nat" where
  "toLowerCase n = (if 65 \<le> n \<and> n \<le> 90 then n + 32 else n)"

definition isSpace :: "nat \<Rightarrow> bool" where
  "isSpace n = (n = 32 \<or> (9 \<le> n \<and> n \<le> 13))"

fun atom_matches :: "bool \<Rightarrow> atom \<Rightarrow> char \<Rightarrow> bool" where
  "atom_matches i (Chars rs) c =
     (in_ranges rs (of_char c)
      \<or> (i \<and> (in_ranges rs (toUpperCase (of_char c)) \<or> in_ranges rs (toLowerCase (of_char c)))))"
| "atom_matches i NonSpace c = (\<not> isSpace (of_char c))"

fun match_here :: "bool \<Rightarrow> item list \<Rightarrow> string \<Rightarrow> bool" where
  "match_here i [] s = True"
| "match_here i ((a, lo, hi) # rest) s =
     (let n = length (takeWhile (atom_matches i a) s);
          top = (case hi of None \<Rightarrow> n | Some h \<Rightarrow> min h n)
      in list_ex (\<lambda>k. match_here i rest (drop k s)) [lo..<Suc top])"

definition test :: "RegExp \<Rightarrow> string \<Rightarrow> bool" where
  "test r s = list_ex (\<lambda>k. match_here (ignoreCase r) (items r) (drop k s)) [0..<Suc (length s)]"

definition backslash :: string where
  "backslash = [CHR 0x5C]"

definition quote :: string where
  "quote = [CHR 0x27]"

text \<open>\<open>/[a-z][a-z0-9\-]{0,48}[a-z0-9]/gi\<close>\<close>

definition domainNamePattern :: RegExp where
  "domainNamePattern =
     \<lparr> source = ''[a-z][a-z0-9'' @ backslash @ ''-]{0,48}[a-z0-9]'',
       items = [(Chars [(CHR ''a'', CHR ''z'')], 1, Some 1),
                (Chars [(CHR ''a'', CHR ''z''), (CHR ''0'', CHR ''9''), (CHR ''-'', CHR ''-'')], 0, Some 48),
                (Chars [(CHR ''a'', CHR ''z''), (CHR ''0'', CHR ''9'')], 1, Some 1)],
       ignoreCase = True \<rparr>"

text \<open>\<open>/\S+/gi\<close>\<close>

definition encryptionKeyPattern :: RegExp where
  "encryptionKeyPattern =
     \<lparr> source = backslash @ ''S+'', items = [(NonSpace, 1, None)], ignoreCase = True \<rparr>"

text \<open>
  \<open>/\P{C}+/gi\<close>. The literal has no \<open>u\<close> flag, so \<open>\P\<close> is the letter P and the braces
  are ordinary characters: the pattern is the text \<open>P{C\<close> followed by one or more
  closing braces, letters in either case.
\<close>

definition descriptionPattern :: RegExp where
  "descriptionPattern =
     \<lparr> source = backslash @ ''P{C}+'',
       items = [(Chars [(CHR ''P'', CHR ''P'')], 1, Some 1),
                (Chars [(CHR ''{'', CHR ''{'')], 1, Some 1),
                (Chars [(CHR ''C'', CHR ''C'')], 1, Some 1),
                (Chars [(CHR ''}'', CHR ''}'')], 1, None)],
       ignoreCase = True \<rparr>"

text \<open>\<open>/[A-Za-z0-9][A-Za-z0-9._\-]{1,99}/gi\<close>\<close>

definition repositoryNamePattern :: RegExp where
  "repositoryNamePattern =
     \<lparr> source = ''[A-Za-z0-9][A-Za-z0-9._'' @ backslash @ ''-]{1,99}'',
       items = [(Chars [(CHR ''A'', CHR ''Z''), (CHR ''a'', CHR ''z''), (CHR ''0'', CHR ''9'')], 1, Some 1),
                (Chars [(CHR ''A'', CHR ''Z''), (CHR ''a'', CHR ''z''), (CHR ''0'', CHR ''9''),
                        (CHR ''.'', CHR ''.''), (CHR ''_'', CHR ''_''), (CHR ''-'', CHR ''-'')], 1, Some 99)],
       ignoreCase = True \<rparr>"

section \<open>The validator\<close>

record ValidationRule =
  required :: bool
  minLength :: "nat option"
  maxLength :: "nat option"
  pattern :: "RegExp option"
  documentationLink :: string

text \<open>Decimal digits of a number, as template literals print it.\<close>

fun string_of_nat :: "nat \<Rightarrow> string" where
  "string_of_nat n =
     (if n < 10 then [''0123456789'' ! n]
      else string_of_nat (n div 10) @ [''0123456789'' ! (n mod 10)])"

declare string_of_nat.simps [simp del]

text \<open>
  Modelled from the spec: \<open>validate\<close> of \<open>./validation\<close>, which is not under src/.
  The spec (4.1) has it fail when a required value is absent, when the value is
  shorter than the least length, when it is longer than the greatest length, and
  when it does not match the pattern, with the messages
  \<open><Field>: must be less than <max> characters long.\<close> "and/or"
  \<open><Field>: must match pattern <pattern>.\<close>, each followed by
  \<open>Must match rules from <docLink>\<close> when the rule has a pattern (6). So a failure
  reports every check that the value violates, in the order in which the spec lists
  the checks. How the messages of several violations are joined into one text the
  spec does not say: the error holds them one by one, and a failure "with" a message
  is one that holds it. The spec gives no message for a missing required value or a
  value below the least length.

  A falsy value (\<open>undefined\<close> or the empty string) counts as absent, and an absent
  value that is not required passes: a domain without an encryption key, whose key
  ARN is passed as \<open>''\<close> against a least length of 1, is constructed in every test of
  the repository.
\<close>

definition validate :: "string \<Rightarrow> ValidationRule \<Rightarrow> string option \<Rightarrow> error + unit" where
  "validate name rule v =
     (case v of
        None \<Rightarrow> if required rule then Inl (RequiredMissing name) else Inr ()
      | Some s \<Rightarrow>
          if s = [] then (if required rule then Inl (RequiredMissing name) else Inr ())
          else
            (let suffix = (case pattern rule of
                             None \<Rightarrow> []
                           | Some _ \<Rightarrow> '' Must match rules from '' @ documentationLink rule);
                 tooShort = (case minLength rule of
                               None \<Rightarrow> []
                             | Some m \<Rightarrow> if length s < m then [BelowMinLength m] else []);
                 tooLong = (case maxLength rule of
                              None \<Rightarrow> []
                            | Some m \<Rightarrow>
                                if m < length s
                                then [Message (name @ '': must be less than '' @ string_of_nat m
                                                 @ '' characters long.'' @ suffix)]
                                else []);
                 mismatch = (case pattern rule of
                               None \<Rightarrow> []
                             | Some r \<Rightarrow>
                                 if test r s then []
                                 else [Message (name @ '': must match pattern '' @ source r
                                                  @ ''.'' @ suffix)]);
                 violations = tooShort @ tooLong @ mismatch
             in if violations = [] then Inr () else Inl (ConstraintViolation name violations)))"

section \<open>The Domain construct\<close>

record DomainProps =
  dp_domainName :: "string option"
  dp_domainEncryptionKey :: "IKey option"
  dp_principal :: "principal option"
  dp_policyDocument :: "doc_ref option"

text \<open>
  The underlying \<open>CfnDomain\<close> resource. Its \<open>permissionsPolicyDocument\<close> is the lazy
  value \<open>Lazy.uncachedAny({ produce: () => props?.policyDocument?.toJSON() })\<close>: what is
  stored is the reference \<open>props?.policyDocument\<close> that the closure holds, and the value
  is produced from the store at the time it is asked for.
\<close>

record CfnDomain =
  cd_domainName :: string
  cd_permissionsPolicyDocument :: "doc_ref option"
  cd_encryptionKey :: "string option"
  attrArn :: string
  attrOwner :: string

record Domain = IDomain +
  cfnDomain :: CfnDomain

text \<open>
  Modelled from the spec: the attributes \<open>attrArn\<close> and \<open>attrOwner\<close> of the generated
  resource classes (\<open>./codeartifact.generated\<close>, not under src/). The spec (3) has the
  ARN of a constructed resource derived by the provider; such an attribute is a
  deploy-time token, written into a string.
\<close>

definition attribute_token :: "string \<Rightarrow> string \<Rightarrow> string" where
  "attribute_token path name = ''${Token['' @ path @ ''.'' @ name @ '']}''"

text \<open>
  The value that the lazy policy document produces; \<open>toJSON\<close> of \<open>iam.PolicyDocument\<close>
  is a parameter.
\<close>

definition produce_permissionsPolicyDocument ::
  "(PolicyDocument \<Rightarrow> 'json) \<Rightarrow> World \<Rightarrow> CfnDomain \<Rightarrow> 'json option" where
  "produce_permissionsPolicyDocument toJSON w cfn =
     (case cd_permissionsPolicyDocument cfn of
        None \<Rightarrow> None
      | Some p \<Rightarrow> Some (toJSON (documents w ! p)))"

definition domainNameRule :: "string \<Rightarrow> ValidationRule" where
  "domainNameRule link =
     \<lparr> required = True, minLength = Some 2, maxLength = Some 50,
       pattern = Some domainNamePattern, documentationLink = link \<rparr>"

definition encryptionKeyRule :: ValidationRule where
  "encryptionKeyRule =
     \<lparr> required = False, minLength = Some 1, maxLength = Some 2048,
       pattern = Some encryptionKeyPattern,
       documentationLink = ''https://docs.aws.amazon.com/AWSCloudFormation/latest/UserGuide/aws-resource-codeartifact-domain.html#cfn-codeartifact-domain-encryptionkey'' \<rparr>"

text \<open>
  \<open>Domain.validateProps\<close> (domain.ts lines 194-206, and the same text at lines 486-498).
  \<open>Token.isUnresolved\<close> of the core library is a parameter.
\<close>

definition Domain_validateProps :: "(string \<Rightarrow> bool) \<Rightarrow> string \<Rightarrow> IKey option \<Rightarrow> error + unit" where
  "Domain_validateProps isUnresolved name key =
     (if isUnresolved name
      then Inl (Error (quote @ ''domainName'' @ quote @ '' must resolve, got: '' @ quote @ name @ quote))
      else
        (case validate ''DomainName''
                (domainNameRule ''https://docs.aws.amazon.com/AWSCloudFormation/latest/UserGuide/aws-resource-codeartifact-domain.html#cfn-codeartifact-domain-domainname'')
                (Some name) of
           Inl e \<Rightarrow> Inl e
         | Inr _ \<Rightarrow>
             validate ''EncryptionKey'' encryptionKeyRule
               (Some (js_or (map_option keyArn key) []))))"

text \<open>
  \<open>new Domain(scope, id, props?)\<close> (lines 172-192 and 452-473). The result is the world
  after the call together with the error thrown or the domain constructed; the
  \<open>CfnDomain\<close> is built, and entered among the resources, only after validation.
  \<open>props?.x\<close> reads \<open>undefined\<close> when there are no props.
\<close>

definition props_domainName :: "DomainProps option \<Rightarrow> string option" where
  "props_domainName props = (case props of None \<Rightarrow> None | Some p \<Rightarrow> dp_domainName p)"

definition props_domainEncryptionKey :: "DomainProps option \<Rightarrow> IKey option" where
  "props_domainEncryptionKey props = (case props of None \<Rightarrow> None | Some p \<Rightarrow> dp_domainEncryptionKey p)"

definition props_policyDocument :: "DomainProps option \<Rightarrow> doc_ref option" where
  "props_policyDocument props = (case props of None \<Rightarrow> None | Some p \<Rightarrow> dp_policyDocument p)"

definition Domain_new ::
  "(string \<Rightarrow> bool) \<Rightarrow> World \<Rightarrow> string \<Rightarrow> DomainProps option \<Rightarrow> World \<times> (error + Domain)" where
  "Domain_new isUnresolved w ident props =
     (let name = nullish (props_domainName props) ident;
          key = props_domainEncryptionKey props;
          doc = props_policyDocument props
      in case Domain_validateProps isUnresolved name key of
           Inl e \<Rightarrow> (w, Inl e)
         | Inr _ \<Rightarrow>
             let cfn = \<lparr> cd_domainName = name,
                         cd_permissionsPolicyDocument = doc,
                         cd_encryptionKey = map_option keyId key,
                         attrArn = attribute_token (ident @ ''/Resource'') ''Arn'',
                         attrOwner = attribute_token (ident @ ''/Resource'') ''Owner'' \<rparr>
             in (w\<lparr>resources := resources w @ [ident @ ''/Resource'']\<rparr>,
                 Inr \<lparr> domainArn = Some (attrArn cfn),
                       domainName = Some name,
                       domainOwner = Some (attrOwner cfn),
                       domainEncryptionKey = key,
                       policyDocument = doc,
                       cfnDomain = cfn \<rparr>))"

record AddToResourcePolicyResult =
  statementAdded :: bool
  policyDependable :: "doc_ref option"

text \<open>
  \<open>Domain.addToResourcePolicy\<close> (lines 211-222 and 503-514). The call returns the
  world, the domain object as it is after the call, and the result.
\<close>

definition Domain_addToResourcePolicy ::
  "World \<Rightarrow> Domain \<Rightarrow> PolicyStatement \<Rightarrow> World \<times> Domain \<times> AddToResourcePolicyResult" where
  "Domain_addToResourcePolicy w this statement =
     (case policyDocument this of
        None \<Rightarrow>
          (case new_PolicyDocument w of
             (p, w1) \<Rightarrow>
               (addStatements p [statement] w1, this,
                \<lparr> statementAdded = True, policyDependable = Some p \<rparr>))
      | Some _ \<Rightarrow> (w, this, \<lparr> statementAdded = False, policyDependable = None \<rparr>))"

section \<open>The Repository construct\<close>

text \<open>
  Modelled from the spec: the enumeration \<open>ExternalConnection\<close> (\<open>./external-connection\<close>,
  not under src/). The spec (6) has its values as opaque strings that are passed
  through as they are.
\<close>

type_synonym ExternalConnection = string

text \<open>
  \<open>RemovalPolicy\<close> of the core library: an enumeration of non-empty strings, so every
  value is truthy.
\<close>

datatype RemovalPolicy = DESTROY | RETAIN | SNAPSHOT

record RepositoryProps =
  rp_repositoryName :: "string option"
  rp_description :: "string option"
  rp_repositoryDomain :: IDomain
  rp_upstreams :: "IRepository list option"
  rp_externalConnections :: "ExternalConnection list option"
  rp_principal :: "principal option"
  rp_policyDocument :: "doc_ref option"
  rp_removalPolicy :: "RemovalPolicy option"

text \<open>
  The underlying \<open>CfnRepository\<close> resource. An element of \<open>upstreams\<close> is the
  \<open>repositoryName\<close> of an upstream as read, so it is optional like that field.
\<close>

record CfnRepository =
  cr_domainName :: string
  cr_domainOwner :: "string option"
  cr_repositoryName :: string
  cr_description :: "string option"
  cr_upstreams :: "string option list option"
  cr_externalConnections :: "ExternalConnection list option"
  cr_permissionsPolicyDocument :: "doc_ref option"
  cr_removalPolicy :: "RemovalPolicy option"
  cr_attrArn :: string

text \<open>
  A repository is its interface fields, its \<open>CfnRepository\<close>, and the dependencies
  that \<open>this.node.addDependency\<close> has recorded on its construct node.
\<close>

record Repository = IRepository +
  cfnRepository :: CfnRepository
  dependencies :: "IRepository list"

definition descriptionRule :: ValidationRule where
  "descriptionRule =
     \<lparr> required = False, minLength = None, maxLength = Some 1000,
       pattern = Some descriptionPattern,
       documentationLink = ''https://docs.aws.amazon.com/AWSCloudFormation/latest/UserGuide/aws-resource-codeartifact-repository.html#cfn-codeartifact-repository-description'' \<rparr>"

definition repositoryNameRule :: ValidationRule where
  "repositoryNameRule =
     \<lparr> required = True, minLength = Some 2, maxLength = Some 100,
       pattern = Some repositoryNamePattern,
       documentationLink = ''https://docs.aws.amazon.com/AWSCloudFormation/latest/UserGuide/aws-resource-codeartifact-repository.html#cfn-codeartifact-repository-repositoryname'' \<rparr>"

text \<open>\<open>Repository.validateProps\<close> (repository.ts lines 412-449).\<close>

definition Repository_validateProps :: "string \<Rightarrow> string option \<Rightarrow> string option \<Rightarrow> error + unit" where
  "Repository_validateProps name domName description =
     (case validate ''Description'' descriptionRule description of
        Inl e \<Rightarrow> Inl e
      | Inr _ \<Rightarrow>
          (case validate ''DomainName''
                  (domainNameRule ''https://docs.aws.amazon.com/AWSCloudFormation/latest/UserGuide/aws-resource-codeartifact-repository.html#cfn-codeartifact-repository-domainname'')
                  domName of
             Inl e \<Rightarrow> Inl e
           | Inr _ \<Rightarrow> validate ''RepositoryName'' repositoryNameRule (Some name)))"

text \<open>\<open>Repository.addToResourcePolicy\<close> (lines 335-343).\<close>

definition Repository_addToResourcePolicy ::
  "World \<Rightarrow> Repository \<Rightarrow> PolicyStatement \<Rightarrow> World \<times> Repository \<times> AddToResourcePolicyResult" where
  "Repository_addToResourcePolicy w this statement =
     (case (case cr_permissionsPolicyDocument (cfnRepository this) of
              Some p \<Rightarrow> (p, w)
            | None \<Rightarrow> new_PolicyDocument w) of
        (p, w1) \<Rightarrow>
          (addStatements p [statement] w1,
           this\<lparr>cfnRepository := (cfnRepository this)\<lparr>cr_permissionsPolicyDocument := Some p\<rparr>\<rparr>,
           \<lparr> statementAdded = True, policyDependable = Some p \<rparr>))"

text \<open>The statement of \<open>allowReadFromRepository\<close> (lines 457-476).\<close>

definition readStatement :: "principal \<Rightarrow> PolicyStatement" where
  "readStatement p =
     \<lparr> effect = ALLOW, principals = [p],
       actions = [''codeartifact:DescribePackageVersion'',
                  ''codeartifact:DescribeRepository'',
                  ''codeartifact:GetPackageVersionReadme'',
                  ''codeartifact:GetRepositoryEndpoint'',
                  ''codeartifact:ListPackageVersionAssets'',
                  ''codeartifact:ListPackageVersionDependencies'',
                  ''codeartifact:ListPackageVersions'',
                  ''codeartifact:ListPackages'',
                  ''codeartifact:ReadFromRepository''],
       statement_resources = [''*''] \<rparr>"

text \<open>
  The statement of \<open>allowWriteToRepository\<close> (lines 512-521); \<open>None\<close> for the resources
  is the default parameter \<open>["*"]\<close>.
\<close>

definition writeStatement :: "principal \<Rightarrow> string list option \<Rightarrow> PolicyStatement" where
  "writeStatement p rs =
     \<lparr> effect = ALLOW, principals = [p],
       actions = [''codeartifact:PublishPackageVersion'', ''codeartifact:PutPackageMetadata''],
       statement_resources = (case rs of None \<Rightarrow> [''*''] | Some r \<Rightarrow> r) \<rparr>"

definition allowReadFromRepository ::
  "World \<Rightarrow> Repository \<Rightarrow> principal \<Rightarrow> World \<times> Repository \<times> AddToResourcePolicyResult" where
  "allowReadFromRepository w this p = Repository_addToResourcePolicy w this (readStatement p)"

definition allowWriteToRepository ::
  "World \<Rightarrow> Repository \<Rightarrow> principal \<Rightarrow> string list option
     \<Rightarrow> World \<times> Repository \<times> AddToResourcePolicyResult" where
  "allowWriteToRepository w this p rs = Repository_addToResourcePolicy w this (writeStatement p rs)"

text \<open>
  \<open>new Repository(scope, id, props)\<close> (lines 280-319): validation, the \<open>CfnRepository\<close>
  with the names of the upstreams, a dependency on each upstream, the fields of the
  object, the resource policy (default grants, or the given document), and the
  removal policy.
\<close>

definition Repository_new ::
  "World \<Rightarrow> string \<Rightarrow> RepositoryProps \<Rightarrow> World \<times> (error + Repository)" where
  "Repository_new w ident props =
     (let repositoryDomainName = domainName (rp_repositoryDomain props);
          repositoryDomainOwner = domainOwner (rp_repositoryDomain props);
          name = nullish (rp_repositoryName props) ident;
          description = rp_description props
      in case Repository_validateProps name repositoryDomainName description of
           Inl e \<Rightarrow> (w, Inl e)
         | Inr _ \<Rightarrow>
             let cfn = \<lparr> cr_domainName = nullish repositoryDomainName [],
                         cr_domainOwner = repositoryDomainOwner,
                         cr_repositoryName = name,
                         cr_description = description,
                         cr_upstreams = map_option (map repositoryName) (rp_upstreams props),
                         cr_externalConnections = rp_externalConnections props,
                         cr_permissionsPolicyDocument = None,
                         cr_removalPolicy = None,
                         cr_attrArn = attribute_token (ident @ ''/Resource'') ''Arn'' \<rparr>;
                 w1 = w\<lparr>resources := resources w @ [ident @ ''/Resource'']\<rparr>;
                 this = \<lparr> repositoryArn = Some (cr_attrArn cfn),
                          repositoryName = Some name,
                          repositoryDescription = cr_description cfn,
                          repositoryDomain = rp_repositoryDomain props,
                          cfnRepository = cfn,
                          dependencies = (case rp_upstreams props of None \<Rightarrow> [] | Some us \<Rightarrow> us) \<rparr>
             in case (case rp_policyDocument props of
                        None \<Rightarrow>
                          (let p = (case rp_principal props of
                                      None \<Rightarrow> AccountRootPrincipal
                                    | Some q \<Rightarrow> q)
                           in case allowReadFromRepository w1 this p of
                                (w2, this2, _) \<Rightarrow>
                                  (case allowWriteToRepository w2 this2 p None of
                                     (w3, this3, _) \<Rightarrow> (w3, this3)))
                      | Some d \<Rightarrow>
                          (w1, this\<lparr>cfnRepository :=
                                      (cfnRepository this)\<lparr>cr_permissionsPolicyDocument := Some d\<rparr>\<rparr>)) of
                  (w4, this4) \<Rightarrow>
                    (w4, Inr (this4\<lparr>cfnRepository :=
                                (cfnRepository this4)\<lparr>cr_removalPolicy :=
                                   Some (case rp_removalPolicy props of
                                           None \<Rightarrow> RETAIN
                                         | Some rp \<Rightarrow> rp)\<rparr>\<rparr>)))"

text \<open>\<open>withExternalConnections\<close> (lines 585-591): a rest parameter, an array.\<close>

definition withExternalConnections :: "Repository \<Rightarrow> ExternalConnection list \<Rightarrow> Repository" where
  "withExternalConnections this externalConnections =
     (if length externalConnections \<noteq> 0
      then this\<lparr>cfnRepository :=
                  (cfnRepository this)\<lparr>cr_externalConnections := Some externalConnections\<rparr>\<rparr>
      else this)"

text \<open>\<open>withUpstream\<close> (lines 598-602).\<close>

definition withUpstream :: "Repository \<Rightarrow> IRepository list \<Rightarrow> Repository" where
  "withUpstream this repository =
     this\<lparr>cfnRepository :=
            (cfnRepository this)\<lparr>cr_upstreams :=
               Some (map (\<lambda>f. Some (js_or (repositoryName f) [])) repository)\<rparr>\<rparr>"

section \<open>Fixtures\<close>

text \<open>A stack environment and an empty world, for evaluating the constructs.\<close>

definition example_stack :: Stack where
  "example_stack = \<lparr> account = ''111122223333'', region = ''us-east-1'', partition = ''aws'' \<rparr>"

definition example_world :: World where
  "example_world = \<lparr> stack = example_stack, resources = [], documents = [] \<rparr>"

text \<open>A world that already holds one policy document, with one statement.\<close>

definition example_statement :: PolicyStatement where
  "example_statement =
     \<lparr> effect = ALLOW, principals = [], actions = [''codeartifact:DescribePackageVersion''],
       statement_resources = [] \<rparr>"

definition example_world_with_document :: World where
  "example_world_with_document =
     \<lparr> stack = example_stack, resources = [],
       documents = [\<lparr> statements = [example_statement] \<rparr>] \<rparr>"

text \<open>An encoded token is recognised by its marker.\<close>

definition example_isUnresolved :: "string \<Rightarrow> bool" where
  "example_isUnresolved s = (take 8 s = ''${Token['')"

definition example_domain_props :: "doc_ref option \<Rightarrow> DomainProps" where
  "example_domain_props doc =
     \<lparr> dp_domainName = Some ''example-domain'', dp_domainEncryptionKey = None,
       dp_principal = None, dp_policyDocument = doc \<rparr>"

text \<open>The domain that \<open>new Domain(stack, "domain", {domainName: "example-domain"})\<close> yields.\<close>

definition example_domain :: "doc_ref option \<Rightarrow> Domain" where
  "example_domain doc =
     \<lparr> domainArn = Some ''${Token[domain/Resource.Arn]}'',
       domainName = Some ''example-domain'',
       domainOwner = Some ''${Token[domain/Resource.Owner]}'',
       domainEncryptionKey = None,
       policyDocument = doc,
       cfnDomain = \<lparr> cd_domainName = ''example-domain'',
                     cd_permissionsPolicyDocument = doc,
                     cd_encryptionKey = None,
                     attrArn = ''${Token[domain/Resource.Arn]}'',
                     attrOwner = ''${Token[domain/Resource.Owner]}'' \<rparr> \<rparr>"

text \<open>The same domain as a repository sees it, through \<open>IDomain\<close>.\<close>

definition example_idomain :: IDomain where
  "example_idomain =
     \<lparr> domainArn = Some ''${Token[domain/Resource.Arn]}'',
       domainName = Some ''example-domain'',
       domainOwner = Some ''${Token[domain/Resource.Owner]}'',
       domainEncryptionKey = None,
       policyDocument = None \<rparr>"

text \<open>An upstream repository, and the external connection to the public npm registry.\<close>

definition example_upstream :: IRepository where
  "example_upstream =
     \<lparr> repositoryArn = Some ''${Token[repository-1/Resource.Arn]}'',
       repositoryName = Some ''example-repo-1'',
       repositoryDescription = None,
       repositoryDomain = example_idomain \<rparr>"

definition NPM_NPMJS :: ExternalConnection where
  "NPM_NPMJS = ''public:npmjs''"

definition example_repository_props ::
  "string \<Rightarrow> IDomain \<Rightarrow> IRepository list option \<Rightarrow> ExternalConnection list option
     \<Rightarrow> doc_ref option \<Rightarrow> RepositoryProps" where
  "example_repository_props name d ups ecs doc =
     \<lparr> rp_repositoryName = Some name, rp_description = None, rp_repositoryDomain = d,
       rp_upstreams = ups, rp_externalConnections = ecs, rp_principal = None,
       rp_policyDocument = doc, rp_removalPolicy = None \<rparr>"

text \<open>
  The repository that \<open>new Repository(stack, "repository-2", {repositoryName:
  "example-repo-2", repositoryDomain, externalConnections: [NPM_NPMJS]})\<close> yields in the
  empty world.
\<close>

definition example_repository :: Repository where
  "example_repository =
     \<lparr> repositoryArn = Some ''${Token[repository-2/Resource.Arn]}'',
       repositoryName = Some ''example-repo-2'',
       repositoryDescription = None,
       repositoryDomain = example_idomain,
       cfnRepository =
         \<lparr> cr_domainName = ''example-domain'',
           cr_domainOwner = Some ''${Token[domain/Resource.Owner]}'',
           cr_repositoryName = ''example-repo-2'',
           cr_description = None,
           cr_upstreams = None,
           cr_externalConnections = Some [NPM_NPMJS],
           cr_permissionsPolicyDocument = Some 0,
           cr_removalPolicy = Some RETAIN,
           cr_attrArn = ''${Token[repository-2/Resource.Arn]}'' \<rparr>,
       dependencies = [] \<rparr>"

section \<open>Matching lemmas\<close>

lemma match_here_item:
  assumes "lo \<le> length (takeWhile (atom_matches i a) s)"
    and "case hi of None \<Rightarrow> True | Some h \<Rightarrow> lo \<le> h"
    and "match_here i rest (drop lo s)"
  shows "match_here i ((a, lo, hi) # rest) s"
  using assms by (auto simp: Let_def list_ex_iff split: option.splits intro!: bexI[of _ lo])

lemma test_at_start: "match_here (ignoreCase r) (items r) s \<Longrightarrow> test r s"
  by (auto simp: test_def list_ex_iff intro!: bexI[of _ 0])

text \<open>A letter or digit followed by a character of the second class matches the repository pattern.\<close>

lemma test_repositoryNamePattern_two:
  assumes "atom_matches True (Chars [(CHR ''A'', CHR ''Z''), (CHR ''a'', CHR ''z''), (CHR ''0'', CHR ''9'')]) c1"
    and "atom_matches True (Chars [(CHR ''A'', CHR ''Z''), (CHR ''a'', CHR ''z''), (CHR ''0'', CHR ''9''),
                        (CHR ''.'', CHR ''.''), (CHR ''_'', CHR ''_''), (CHR ''-'', CHR ''-'')]) c2"
  shows "test repositoryNamePattern (c1 # c2 # rest)"
  apply (rule test_at_start)
  apply (simp only: repositoryNamePattern_def RegExp.simps)
  apply (rule match_here_item)
  using assms(1) apply simp
   apply simp
  apply (simp only: drop_Suc_Cons drop_0 One_nat_def)
  apply (rule match_here_item)
  using assms(2) apply simp
   apply simp
  apply simp
  done

text \<open>A letter followed by a letter or digit matches the domain pattern.\<close>

lemma test_domainNamePattern_two:
  assumes "atom_matches True (Chars [(CHR ''a'', CHR ''z'')]) c1"
    and "atom_matches True (Chars [(CHR ''a'', CHR ''z''), (CHR ''0'', CHR ''9'')]) c2"
  shows "test domainNamePattern (c1 # c2 # rest)"
  apply (rule test_at_start)
  apply (simp only: domainNamePattern_def RegExp.simps)
  apply (rule match_here_item)
  using assms(1) apply simp
   apply simp
  apply (simp only: drop_Suc_Cons drop_0 One_nat_def)
  apply (rule match_here_item)
    apply simp
   apply simp
  apply (simp only: drop_0)
  apply (rule match_here_item)
  using assms(2) apply simp
   apply simp
  apply simp
  done

lemma takeWhile_none: "\<forall>c \<in> set s. \<not> P c \<Longrightarrow> takeWhile P s = []"
  by (cases s) auto

lemma match_here_no_start:
  assumes "\<forall>c \<in> set s. \<not> atom_matches i a c" and "0 < lo"
  shows "\<not> match_here i ((a, lo, hi) # rest) (drop k s)"
proof -
  have "\<forall>c \<in> set (drop k s). \<not> atom_matches i a c"
    using assms(1) by (auto dest: in_set_dropD)
  then have "takeWhile (atom_matches i a) (drop k s) = []"
    by (rule takeWhile_none)
  with assms(2) show ?thesis
    by (auto simp: Let_def list_ex_iff split: option.splits)
qed

text \<open>No match starts in a string none of whose characters is in the first class.\<close>

lemma test_no_start:
  assumes "items r = (a, lo, hi) # rest" and "0 < lo"
    and "\<forall>c \<in> set s. \<not> atom_matches (ignoreCase r) a c"
  shows "\<not> test r s"
  using match_here_no_start[OF assms(3,2)] by (simp add: test_def list_ex_iff assms(1))

lemma test_repositoryNamePattern_ats: "\<not> test repositoryNamePattern (replicate n CHR ''@'')"
proof (rule test_no_start)
  show "items repositoryNamePattern
          = (Chars [(CHR ''A'', CHR ''Z''), (CHR ''a'', CHR ''z''), (CHR ''0'', CHR ''9'')], 1, Some 1)
            # [(Chars [(CHR ''A'', CHR ''Z''), (CHR ''a'', CHR ''z''), (CHR ''0'', CHR ''9''),
                       (CHR ''.'', CHR ''.''), (CHR ''_'', CHR ''_''), (CHR ''-'', CHR ''-'')], 1, Some 99)]"
    by (simp add: repositoryNamePattern_def)
  show "0 < (1::nat)" by simp
  show "\<forall>c \<in> set (replicate n CHR ''@'').
          \<not> atom_matches (ignoreCase repositoryNamePattern)
               (Chars [(CHR ''A'', CHR ''Z''), (CHR ''a'', CHR ''z''), (CHR ''0'', CHR ''9'')]) c"
    by (simp add: repositoryNamePattern_def in_ranges_def toUpperCase_def toLowerCase_def)
qed

lemma test_repositoryNamePattern_5ats: "\<not> test repositoryNamePattern ''@@@@@''"
  using test_repositoryNamePattern_ats[of 5] by (simp add: numeral_eq_Suc)

lemma test_repositoryNamePattern_as: "test repositoryNamePattern (replicate (Suc (Suc n)) CHR ''a'')"
  unfolding replicate_Suc
  by (rule test_repositoryNamePattern_two) (simp_all add: in_ranges_def toUpperCase_def toLowerCase_def)

lemma test_repositoryNamePattern_example: "test repositoryNamePattern (CHR ''e'' # CHR ''x'' # rest)"
  by (rule test_repositoryNamePattern_two) (simp_all add: in_ranges_def toUpperCase_def toLowerCase_def)

lemma test_domainNamePattern_example: "test domainNamePattern (CHR ''e'' # CHR ''x'' # rest)"
  by (rule test_domainNamePattern_two) (simp_all add: in_ranges_def toUpperCase_def toLowerCase_def)

section \<open>Validation lemmas\<close>

lemma string_of_nat_50: "string_of_nat 50 = ''50''"
  by (simp add: string_of_nat.simps)

lemma string_of_nat_100: "string_of_nat 100 = ''100''"
  by (simp add: string_of_nat.simps)

lemma string_of_nat_1000: "string_of_nat 1000 = ''1000''"
  by (simp add: string_of_nat.simps)

lemma validate_Description_absent: "validate ''Description'' descriptionRule None = Inr ()"
  by (simp add: validate_def descriptionRule_def)

lemma validate_EncryptionKey_absent: "validate ''EncryptionKey'' encryptionKeyRule (Some []) = Inr ()"
  by (simp add: validate_def encryptionKeyRule_def)

lemma validate_DomainName_example:
  "validate ''DomainName'' (domainNameRule link) (Some ''example-domain'') = Inr ()"
  by (simp add: validate_def domainNameRule_def Let_def test_domainNamePattern_example)

lemma validate_RepositoryName_example:
  "validate ''RepositoryName'' repositoryNameRule (Some ''example-repo-2'') = Inr ()"
  by (simp add: validate_def repositoryNameRule_def Let_def test_repositoryNamePattern_example)

text \<open>
  A repository name longer than 100 characters: the length message is reported, and
  after it the pattern message if the pattern finds no match.
\<close>

lemma validate_RepositoryName_long:
  assumes "100 < length s"
  shows "validate ''RepositoryName'' repositoryNameRule (Some s)
           = Inl (ConstraintViolation ''RepositoryName''
                   (Message ''RepositoryName: must be less than 100 characters long. Must match rules from https://docs.aws.amazon.com/AWSCloudFormation/latest/UserGuide/aws-resource-codeartifact-repository.html#cfn-codeartifact-repository-repositoryname''
                    # (if test repositoryNamePattern s then []
                       else [Message (''RepositoryName: must match pattern [A-Za-z0-9][A-Za-z0-9._'' @ backslash
                                       @ ''-]{1,99}. Must match rules from https://docs.aws.amazon.com/AWSCloudFormation/latest/UserGuide/aws-resource-codeartifact-repository.html#cfn-codeartifact-repository-repositoryname'')])))"
proof -
  from assms have "s \<noteq> []" and "\<not> length s < 2" by auto
  with assms show ?thesis
    by (simp add: validate_def repositoryNameRule_def Let_def string_of_nat_100)
       (simp add: repositoryNamePattern_def)
qed

lemma validate_RepositoryName_5ats:
  "validate ''RepositoryName'' repositoryNameRule (Some ''@@@@@'')
     = Inl (ConstraintViolation ''RepositoryName''
             [Message (''RepositoryName: must match pattern [A-Za-z0-9][A-Za-z0-9._'' @ backslash
                        @ ''-]{1,99}. Must match rules from https://docs.aws.amazon.com/AWSCloudFormation/latest/UserGuide/aws-resource-codeartifact-repository.html#cfn-codeartifact-repository-repositoryname'')])"
  using test_repositoryNamePattern_5ats
  by (simp add: validate_def repositoryNameRule_def Let_def) (simp add: repositoryNamePattern_def)

section \<open>The validator on the inputs of the repository's tests\<close>

text \<open>
  The four test cases on validation messages: a domain name of 52 letters, a
  description of 2002 letters, a repository name of 101 letters, and the repository
  name \<open>@@@@@\<close>. Each test expects one message, and the failure holds it. The
  description violates the greatest length too, and the pattern besides: its literal
  has no \<open>u\<close> flag, so letters \<open>a\<close> do not match it.
\<close>

lemma test_descriptionPattern_as: "\<not> test descriptionPattern (replicate n CHR ''a'')"
proof (rule test_no_start)
  show "items descriptionPattern
          = (Chars [(CHR ''P'', CHR ''P'')], 1, Some 1)
            # [(Chars [(CHR ''{'', CHR ''{'')], 1, Some 1),
               (Chars [(CHR ''C'', CHR ''C'')], 1, Some 1),
               (Chars [(CHR ''}'', CHR ''}'')], 1, None)]"
    by (simp add: descriptionPattern_def)
  show "0 < (1::nat)" by simp
  show "\<forall>c \<in> set (replicate n CHR ''a'').
          \<not> atom_matches (ignoreCase descriptionPattern) (Chars [(CHR ''P'', CHR ''P'')]) c"
    by (simp add: descriptionPattern_def in_ranges_def toUpperCase_def toLowerCase_def)
qed

lemma validate_Description_too_long:
  "validate ''Description'' descriptionRule (Some (replicate 2002 CHR ''a''))
     = Inl (ConstraintViolation ''Description''
             [Message ''Description: must be less than 1000 characters long. Must match rules from https://docs.aws.amazon.com/AWSCloudFormation/latest/UserGuide/aws-resource-codeartifact-repository.html#cfn-codeartifact-repository-description'',
              Message (''Description: must match pattern '' @ backslash
                        @ ''P{C}+. Must match rules from https://docs.aws.amazon.com/AWSCloudFormation/latest/UserGuide/aws-resource-codeartifact-repository.html#cfn-codeartifact-repository-description'')])"
proof -
  have "replicate 2002 CHR ''a'' \<noteq> []" by simp
  then show ?thesis
    using test_descriptionPattern_as[of 2002]
    by (simp add: validate_def descriptionRule_def Let_def string_of_nat_1000)
       (simp add: descriptionPattern_def)
qed

lemma validate_DomainName_too_long:
  "validate ''DomainName'' (domainNameRule link) (Some (replicate 52 CHR ''a''))
     = Inl (ConstraintViolation ''DomainName''
             [Message (''DomainName: must be less than 50 characters long. Must match rules from '' @ link)])"
proof -
  have "test domainNamePattern (replicate (Suc (Suc 50)) CHR ''a'')"
    unfolding replicate_Suc
    by (rule test_domainNamePattern_two) (simp_all add: in_ranges_def toUpperCase_def toLowerCase_def)
  then have "test domainNamePattern (replicate 52 CHR ''a'')"
    by (simp add: numeral_eq_Suc)
  moreover have "replicate 52 CHR ''a'' \<noteq> []" by simp
  ultimately show ?thesis
    by (simp add: validate_def domainNameRule_def Let_def string_of_nat_50)
qed

lemma validate_RepositoryName_too_long:
  "validate ''RepositoryName'' repositoryNameRule (Some (replicate 101 CHR ''a''))
     = Inl (ConstraintViolation ''RepositoryName''
             [Message ''RepositoryName: must be less than 100 characters long. Must match rules from https://docs.aws.amazon.com/AWSCloudFormation/latest/UserGuide/aws-resource-codeartifact-repository.html#cfn-codeartifact-repository-repositoryname''])"
proof -
  have "test repositoryNamePattern (replicate 101 CHR ''a'')"
    using test_repositoryNamePattern_as[of 99] by (simp add: numeral_eq_Suc)
  then show ?thesis
    by (simp add: validate_RepositoryName_long)
qed

section \<open>Construction lemmas\<close>

lemma Domain_new_example:
  "Domain_new example_isUnresolved w ''domain'' (Some (example_domain_props doc))
     = (w\<lparr>resources := resources w @ [''domain/Resource'']\<rparr>, Inr (example_domain doc))"
  by (simp add: Domain_new_def Domain_validateProps_def Let_def example_isUnresolved_def
        example_domain_props_def example_domain_def props_domainName_def
        props_domainEncryptionKey_def props_policyDocument_def nullish_def js_or_def
        validate_DomainName_example validate_EncryptionKey_absent attribute_token_def)

lemma Domain_new_Inr:
  assumes "Domain_new isUnresolved wa ident props = (wb, Inr d)"
  shows "policyDocument d = props_policyDocument props"
    and "cd_permissionsPolicyDocument (cfnDomain d) = props_policyDocument props"
  using assms by (auto simp: Domain_new_def Let_def split: sum.splits)

text \<open>The fixtures are what the constructs yield.\<close>

lemma example_idomain_is_example_domain: "IDomain.truncate (example_domain None) = example_idomain"
  by (simp add: IDomain.truncate_def example_domain_def example_idomain_def)

lemma Repository_validateProps_example:
  "Repository_validateProps ''example-repo-2'' (Some ''example-domain'') None = Inr ()"
  by (simp add: Repository_validateProps_def validate_Description_absent
        validate_DomainName_example validate_RepositoryName_example)

lemma Repository_new_example:
  "Repository_new example_world ''repository-2''
      (example_repository_props ''example-repo-2'' example_idomain None (Some [NPM_NPMJS]) None)
    = (\<lparr> stack = example_stack, resources = [''repository-2/Resource''],
          documents = [\<lparr> statements = [readStatement AccountRootPrincipal,
                                         writeStatement AccountRootPrincipal None] \<rparr>] \<rparr>,
       Inr example_repository)"
  by (simp add: Repository_new_def Let_def example_repository_props_def example_idomain_def
        nullish_def Repository_validateProps_example allowReadFromRepository_def
        allowWriteToRepository_def Repository_addToResourcePolicy_def new_PolicyDocument_def
        addStatements_def example_world_def example_repository_def attribute_token_def)

lemma Repository_new_succeeds_example:
  "\<exists>w' r. Repository_new w ''repository-2''
             (example_repository_props ''example-repo-2'' example_idomain ups ecs doc) = (w', Inr r)"
  by (simp add: Repository_new_def Let_def example_repository_props_def example_idomain_def
        nullish_def Repository_validateProps_example split: prod.splits option.splits)

text \<open>
  The import of a domain that \<open>ImportedRepository\<close> asks for, with an owner and
  neither an ARN nor a name: the first listing assigns no field, the second throws.
\<close>

lemma fromDomainAttributes_owner_only:
  "fromDomainAttributes splitArn st
     \<lparr> da_domainArn = None, da_domainName = None, da_domainOwner = Some owner,
       da_domainEncryptionKey = None \<rparr> = Inr unassigned_domain"
  by (simp add: fromDomainAttributes_def ImportedDomain_def truthy_def)

lemma fromDomainAttributes2_owner_only:
  "fromDomainAttributes2 splitArn st
     \<lparr> da_domainArn = None, da_domainName = None, da_domainOwner = Some owner,
       da_domainEncryptionKey = None \<rparr> = Inl TypeError"
  by (simp add: fromDomainAttributes2_def truthy_def)



section \<open>Importing a repository from the literal ARN\<close>

text \<open>
  C1. For the ARN \<open>arn:aws:codeartifact:region-id:123456789012:repository/my-domain/my-repo\<close>
  the import succeeds and the repository's name is \<open>my-repo\<close>, but the imported
  domain has no name: the resource name \<open>my-domain/my-repo\<close> has the two pieces 0 and
  1, the domain name is read at index 2, and \<open>ImportedDomain\<close>, given neither an ARN
  nor a name, assigns no field. The domain name is not \<open>my-domain\<close>.
\<close>

theorem fromRepositoryArn_literal:
  "fromRepositoryArn splitArn_spec st ''arn:aws:codeartifact:region-id:123456789012:repository/my-domain/my-repo''
     = Inr \<lparr> repositoryArn = Some ''arn:aws:codeartifact:region-id:123456789012:repository/my-domain/my-repo'',
             repositoryName = Some ''my-repo'',
             repositoryDescription = None,
             repositoryDomain = \<lparr> domainArn = None, domainName = None, domainOwner = None,
                                  domainEncryptionKey = None, policyDocument = None \<rparr> \<rparr>"
  by (simp add: fromRepositoryArn_def ImportedRepository_def truthy_def nullish_def
        splitArn_spec_def Let_def index_def fromDomainAttributes_def ImportedDomain_def
        unassigned_domain_def)

section \<open>The resource policy of a domain\<close>

text \<open>
  C2. For a domain that was constructed, and for every statement and every world at the
  time of the call: if no policy document was given in the props, \<open>addToResourcePolicy\<close>
  returns \<open>statementAdded = true\<close>; if one was given, it returns \<open>statementAdded = false\<close>
  with no dependable, and leaves the world and the domain as they were.
\<close>

theorem Domain_addToResourcePolicy_statementAdded:
  assumes "Domain_new isUnresolved wa ident props = (wb, Inr d)"
  shows "(props_policyDocument props = None \<longrightarrow>
            statementAdded (snd (snd (Domain_addToResourcePolicy w d s))))
       \<and> (props_policyDocument props \<noteq> None \<longrightarrow>
            Domain_addToResourcePolicy w d s
              = (w, d, \<lparr> statementAdded = False, policyDependable = None \<rparr>))"
  using Domain_new_Inr(1)[OF assms]
  by (auto simp: Domain_addToResourcePolicy_def new_PolicyDocument_def split: option.splits)

theorem Domain_addToResourcePolicy_statementAdded_witness:
  "statementAdded (snd (snd (Domain_addToResourcePolicy example_world (example_domain None) example_statement)))
   \<and> Domain_addToResourcePolicy example_world_with_document (example_domain (Some 0)) example_statement
       = (example_world_with_document, example_domain (Some 0),
          \<lparr> statementAdded = False, policyDependable = None \<rparr>)"
  using Domain_addToResourcePolicy_statementAdded
          [OF Domain_new_example [where doc = None],
           where w = example_world and s = example_statement]
        Domain_addToResourcePolicy_statementAdded
          [OF Domain_new_example [where doc = "Some 0"],
           where w = example_world_with_document and s = example_statement]
  by (simp add: props_policyDocument_def example_domain_props_def)

text \<open>
  C3. In the branch that returns \<open>statementAdded = true\<close> the domain object is the same
  after the call as before, and so are its \<open>policyDocument\<close> field and the value that
  the lazy \<open>permissionsPolicyDocument\<close> of the underlying resource produces. The
  statement is in a new document, appended to the store, which is the one returned as
  \<open>policyDependable\<close>; every document that existed keeps its place and content.
\<close>

theorem Domain_addToResourcePolicy_frame:
  assumes "Domain_new isUnresolved wa ident props = (wb, Inr d)"
    and "Domain_addToResourcePolicy w d s = (w', d', r)"
    and "statementAdded r"
  shows "d' = d
       \<and> policyDocument d' = policyDocument d
       \<and> produce_permissionsPolicyDocument toJSON w' (cfnDomain d')
           = produce_permissionsPolicyDocument toJSON w (cfnDomain d)
       \<and> policyDependable r = Some (length (documents w))
       \<and> documents w' = documents w @ [\<lparr> statements = [s] \<rparr>]
       \<and> resources w' = resources w \<and> stack w' = stack w"
proof -
  from assms(2,3) have none: "policyDocument d = None"
    by (auto simp: Domain_addToResourcePolicy_def split: option.splits)
  with Domain_new_Inr[OF assms(1)] have cap: "cd_permissionsPolicyDocument (cfnDomain d) = None"
    by simp
  from assms(2) none cap show ?thesis
    by (auto simp: Domain_addToResourcePolicy_def new_PolicyDocument_def addStatements_def
          produce_permissionsPolicyDocument_def)
qed

lemma Domain_addToResourcePolicy_example:
  "Domain_addToResourcePolicy example_world_with_document (example_domain None) (readStatement AccountRootPrincipal)
     = (example_world_with_document
          \<lparr>documents := [\<lparr> statements = [example_statement] \<rparr>,
                         \<lparr> statements = [readStatement AccountRootPrincipal] \<rparr>]\<rparr>,
        example_domain None,
        \<lparr> statementAdded = True, policyDependable = Some 1 \<rparr>)"
  by (simp add: Domain_addToResourcePolicy_def example_domain_def new_PolicyDocument_def
        addStatements_def example_world_with_document_def)

theorem Domain_addToResourcePolicy_frame_witness:
  "produce_permissionsPolicyDocument statements
       (example_world_with_document
          \<lparr>documents := [\<lparr> statements = [example_statement] \<rparr>,
                         \<lparr> statements = [readStatement AccountRootPrincipal] \<rparr>]\<rparr>)
       (cfnDomain (example_domain None))
     = produce_permissionsPolicyDocument statements example_world_with_document
         (cfnDomain (example_domain None))
   \<and> documents (example_world_with_document
          \<lparr>documents := [\<lparr> statements = [example_statement] \<rparr>,
                         \<lparr> statements = [readStatement AccountRootPrincipal] \<rparr>]\<rparr>)
     = documents example_world_with_document @ [\<lparr> statements = [readStatement AccountRootPrincipal] \<rparr>]"
  using Domain_addToResourcePolicy_frame
          [OF Domain_new_example Domain_addToResourcePolicy_example, where toJSON = statements]
  by simp

section \<open>Unresolved domain names\<close>

text \<open>
  C7. Whenever the name of the domain (the \<open>domainName\<close> prop, or the construct id when
  there is none) is an unresolved token, \<open>new Domain\<close> throws the error
  \<open>'domainName' must resolve, got: '<name>'\<close>, and the world is as it was before the
  call: no underlying resource has been built. This holds for every props and id, so
  the name is never carried further.
\<close>

theorem Domain_new_unresolved:
  assumes "isUnresolved (nullish (props_domainName props) ident)"
  shows "Domain_new isUnresolved w ident props
       = (w, Inl (Error (quote @ ''domainName'' @ quote @ '' must resolve, got: '' @ quote
                          @ nullish (props_domainName props) ident @ quote)))"
  using assms by (simp add: Domain_new_def Domain_validateProps_def Let_def)

theorem Domain_new_unresolved_witness:
  "example_isUnresolved ''${Token[TOKEN.12]}''
   \<and> Domain_new example_isUnresolved example_world ''domain''
        (Some \<lparr> dp_domainName = Some ''${Token[TOKEN.12]}'', dp_domainEncryptionKey = None,
                dp_principal = None, dp_policyDocument = None \<rparr>)
      = (example_world,
         Inl (Error (quote @ ''domainName'' @ quote @ '' must resolve, got: '' @ quote
                       @ ''${Token[TOKEN.12]}'' @ quote)))"
  using Domain_new_unresolved
          [where isUnresolved = example_isUnresolved
             and props = "Some \<lparr> dp_domainName = Some ''${Token[TOKEN.12]}'',
                                 dp_domainEncryptionKey = None,
                                 dp_principal = None, dp_policyDocument = None \<rparr>"
             and ident = "''domain''" and w = example_world]
  by (simp add: example_isUnresolved_def props_domainName_def nullish_def)

section \<open>Importing a domain\<close>

text \<open>
  C5. In the first listing of domain.ts (\<open>ImportedDomain\<close>, which both
  \<open>fromDomainArn\<close> and \<open>fromDomainAttributes\<close> construct), the import throws, and no
  object results, whenever \<open>domainArn\<close> and \<open>domainName\<close> are both given and non-empty
  (error \<open>domainArn and domainName are mutually exclusive\<close>), and whenever \<open>domainArn\<close>
  and \<open>domainOwner\<close> are both given and non-empty (the same error if the name is given
  too, else \<open>domainArn and domainOwner are mutually exclusive\<close>). This holds whatever
  \<open>splitArn\<close> does.
\<close>

theorem ImportedDomain_mutually_exclusive:
  "(truthy (da_domainArn a) \<and> truthy (da_domainName a) \<longrightarrow>
      fromDomainAttributes splitArn st a
        = Inl (Error ''domainArn and domainName are mutually exclusive''))
   \<and> (truthy (da_domainArn a) \<and> truthy (da_domainOwner a) \<longrightarrow>
      fromDomainAttributes splitArn st a
        = Inl (Error (if truthy (da_domainName a)
                      then ''domainArn and domainName are mutually exclusive''
                      else ''domainArn and domainOwner are mutually exclusive'')))"
  by (simp add: fromDomainAttributes_def ImportedDomain_def)

theorem ImportedDomain_mutually_exclusive_witness:
  "fromDomainAttributes splitArn_spec example_stack
     \<lparr> da_domainArn = Some ''arn:aws:codeartifact:us-east-2:444455556666:domain/MyDomain'',
       da_domainName = Some ''MyDomain'', da_domainOwner = None, da_domainEncryptionKey = None \<rparr>
     = Inl (Error ''domainArn and domainName are mutually exclusive'')
   \<and> fromDomainAttributes splitArn_spec example_stack
     \<lparr> da_domainArn = Some ''arn:aws:codeartifact:us-east-2:444455556666:domain/MyDomain'',
       da_domainName = None, da_domainOwner = Some ''444455556666'', da_domainEncryptionKey = None \<rparr>
     = Inl (Error ''domainArn and domainOwner are mutually exclusive'')"
  using ImportedDomain_mutually_exclusive
          [where splitArn = splitArn_spec and st = example_stack
             and a = "\<lparr> da_domainArn = Some ''arn:aws:codeartifact:us-east-2:444455556666:domain/MyDomain'',
                        da_domainName = Some ''MyDomain'', da_domainOwner = None,
                        da_domainEncryptionKey = None \<rparr>"]
        ImportedDomain_mutually_exclusive
          [where splitArn = splitArn_spec and st = example_stack
             and a = "\<lparr> da_domainArn = Some ''arn:aws:codeartifact:us-east-2:444455556666:domain/MyDomain'',
                        da_domainName = None, da_domainOwner = Some ''444455556666'',
                        da_domainEncryptionKey = None \<rparr>"]
  by (simp add: truthy_def)

text \<open>
  The second listing of \<open>Domain.fromDomainAttributes\<close> (lines 421-442) makes no such
  check: given an ARN together with a name and an owner it returns an object, whose
  name is the given one.
\<close>

theorem fromDomainAttributes2_accepts_arn_and_name:
  "fromDomainAttributes2 splitArn_spec example_stack
     \<lparr> da_domainArn = Some ''arn:aws:codeartifact:us-east-2:444455556666:domain/MyDomain'',
       da_domainName = Some ''OtherName'',
       da_domainOwner = Some ''111122223333'',
       da_domainEncryptionKey = None \<rparr>
   = Inr \<lparr> domainArn = Some ''arn:aws:codeartifact:us-east-2:444455556666:domain/MyDomain'',
           domainName = Some ''OtherName'',
           domainOwner = None,
           domainEncryptionKey = None,
           policyDocument = None \<rparr>"
  by (simp add: fromDomainAttributes2_def truthy_def unassigned_domain_def)




section \<open>Constructing a repository\<close>

text \<open>
  C4. For every repository that was constructed: if the props hold no policy document,
  the resource policy of the underlying resource is a new document whose statements
  are the read statement and the write statement for the given principal, the account
  root principal when none is given; if the props hold a policy document, the resource
  policy is that very document, and no document of the store has changed. Which of
  the two happens is decided by the prop alone.
\<close>

theorem Repository_new_policy:
  assumes "Repository_new w ident props = (w', Inr r)"
  shows "(rp_policyDocument props = None \<longrightarrow>
            cr_permissionsPolicyDocument (cfnRepository r) = Some (length (documents w))
            \<and> documents w'
                = documents w
                  @ [\<lparr> statements =
                        [readStatement (case rp_principal props of
                                          None \<Rightarrow> AccountRootPrincipal | Some q \<Rightarrow> q),
                         writeStatement (case rp_principal props of
                                           None \<Rightarrow> AccountRootPrincipal | Some q \<Rightarrow> q) None] \<rparr>])
       \<and> (rp_policyDocument props \<noteq> None \<longrightarrow>
            cr_permissionsPolicyDocument (cfnRepository r) = rp_policyDocument props
            \<and> documents w' = documents w)"
  using assms
  by (auto simp: Repository_new_def Let_def allowReadFromRepository_def allowWriteToRepository_def
        Repository_addToResourcePolicy_def new_PolicyDocument_def addStatements_def
        split: sum.splits option.splits)

theorem Repository_new_policy_witness:
  "\<exists>wa ra wb rb.
     Repository_new example_world ''repository-2''
       (example_repository_props ''example-repo-2'' example_idomain None None None) = (wa, Inr ra)
     \<and> cr_permissionsPolicyDocument (cfnRepository ra) = Some 0
     \<and> documents wa = [\<lparr> statements = [readStatement AccountRootPrincipal,
                                         writeStatement AccountRootPrincipal None] \<rparr>]
     \<and> Repository_new example_world_with_document ''repository-2''
       (example_repository_props ''example-repo-2'' example_idomain None None (Some 0)) = (wb, Inr rb)
     \<and> cr_permissionsPolicyDocument (cfnRepository rb) = Some 0
     \<and> documents wb = [\<lparr> statements = [example_statement] \<rparr>]"
proof -
  obtain wa ra where a: "Repository_new example_world ''repository-2''
       (example_repository_props ''example-repo-2'' example_idomain None None None) = (wa, Inr ra)"
    using Repository_new_succeeds_example by blast
  obtain wb rb where b: "Repository_new example_world_with_document ''repository-2''
       (example_repository_props ''example-repo-2'' example_idomain None None (Some 0)) = (wb, Inr rb)"
    using Repository_new_succeeds_example by blast
  from Repository_new_policy[OF a] Repository_new_policy[OF b] a b show ?thesis
    by (simp add: example_repository_props_def example_world_def example_world_with_document_def)
qed

text \<open>
  C9. For every repository that was constructed with an \<open>upstreams\<close> list (empty or not):
  the dependencies recorded on its construct node are exactly the upstream
  repositories, each of them and in the given order, and the \<open>upstreams\<close> field of the
  underlying resource is the list of their \<open>repositoryName\<close>s in the same order.
\<close>

theorem Repository_new_upstreams:
  assumes "Repository_new w ident props = (w', Inr r)"
    and "rp_upstreams props = Some us"
  shows "dependencies r = us
       \<and> cr_upstreams (cfnRepository r) = Some (map repositoryName us)"
  using assms
  by (auto simp: Repository_new_def Let_def allowReadFromRepository_def allowWriteToRepository_def
        Repository_addToResourcePolicy_def new_PolicyDocument_def addStatements_def
        split: sum.splits option.splits)

theorem Repository_new_upstreams_witness:
  "\<exists>w' r.
     Repository_new example_world ''repository-2''
       (example_repository_props ''example-repo-2'' example_idomain (Some [example_upstream]) None None)
       = (w', Inr r)
     \<and> dependencies r = [example_upstream]
     \<and> cr_upstreams (cfnRepository r) = Some [Some ''example-repo-1'']"
proof -
  obtain w' r where a: "Repository_new example_world ''repository-2''
       (example_repository_props ''example-repo-2'' example_idomain (Some [example_upstream]) None None)
       = (w', Inr r)"
    using Repository_new_succeeds_example by blast
  from Repository_new_upstreams[OF a, where us = "[example_upstream]"] a show ?thesis
    by (simp add: example_repository_props_def example_upstream_def)
qed

section \<open>The mutators of a repository\<close>

text \<open>
  C10. \<open>withExternalConnections\<close>, called with at least one connection, sets the
  external-connection list of the underlying resource to exactly the arguments; called
  with none, it leaves the repository as it was. \<open>withUpstream\<close> sets the upstream list
  to the names of the arguments in order, an undefined or empty name giving the empty
  string; when every argument has a non-empty name this is the list of their
  \<open>repositoryName\<close>s, as the constructor would set it.
\<close>

theorem mutators_overwrite:
  "(ecs \<noteq> [] \<longrightarrow> cr_externalConnections (cfnRepository (withExternalConnections r ecs)) = Some ecs)
   \<and> withExternalConnections r [] = r
   \<and> cr_upstreams (cfnRepository (withUpstream r us))
       = Some (map (\<lambda>f. Some (js_or (repositoryName f) [])) us)
   \<and> ((\<forall>u \<in> set us. truthy (repositoryName u)) \<longrightarrow>
        cr_upstreams (cfnRepository (withUpstream r us)) = Some (map repositoryName us))"
  by (auto simp: withExternalConnections_def withUpstream_def js_or_def truthy_def split: option.splits)

theorem mutators_overwrite_witness:
  "cr_externalConnections (cfnRepository (withExternalConnections example_repository [''public:pypi'']))
     = Some [''public:pypi'']
   \<and> cr_upstreams (cfnRepository (withUpstream example_repository [example_upstream]))
     = Some [Some ''example-repo-1'']"
  using mutators_overwrite
          [where r = example_repository and ecs = "[''public:pypi'']" and us = "[example_upstream]"]
  by (simp add: example_upstream_def truthy_def js_or_def)

text \<open>
  A repository constructed with the external connection \<open>NPM_NPMJS\<close> keeps it when
  \<open>withExternalConnections\<close> is called with no argument: the list is not the empty list
  of arguments.
\<close>

theorem withExternalConnections_no_argument:
  "snd (Repository_new example_world ''repository-2''
         (example_repository_props ''example-repo-2'' example_idomain None (Some [NPM_NPMJS]) None))
     = Inr example_repository
   \<and> cr_externalConnections (cfnRepository (withExternalConnections example_repository []))
     = Some [NPM_NPMJS]
   \<and> cr_externalConnections (cfnRepository (withExternalConnections example_repository []))
     \<noteq> Some []"
  by (simp add: Repository_new_example withExternalConnections_def example_repository_def)

section \<open>The name of a repository\<close>

text \<open>
  C8. When the description and the domain name pass their validation, which comes
  first: for every repository name (the \<open>repositoryName\<close> prop, or the construct id)
  of 101 characters or more, \<open>new Repository\<close> fails with the message
  \<open>RepositoryName: must be less than 100 characters long. Must match rules from <link>\<close>,
  the first that the failure holds (the pattern message follows it when the pattern
  finds no match in the name); and for the name \<open>@@@@@\<close> it fails with the message
  \<open>RepositoryName: must match pattern [A-Za-z0-9][A-Za-z0-9._\-]{1,99}. Must match rules from <link>\<close>
  and no other. In both cases the world is as it was before the call.
\<close>

theorem Repository_new_name_errors:
  assumes "validate ''Description'' descriptionRule (rp_description props) = Inr ()"
    and "validate ''DomainName''
           (domainNameRule ''https://docs.aws.amazon.com/AWSCloudFormation/latest/UserGuide/aws-resource-codeartifact-repository.html#cfn-codeartifact-repository-domainname'')
           (domainName (rp_repositoryDomain props)) = Inr ()"
  shows "(100 < length (nullish (rp_repositoryName props) ident) \<longrightarrow>
            Repository_new w ident props
              = (w, Inl (ConstraintViolation ''RepositoryName''
                   (Message ''RepositoryName: must be less than 100 characters long. Must match rules from https://docs.aws.amazon.com/AWSCloudFormation/latest/UserGuide/aws-resource-codeartifact-repository.html#cfn-codeartifact-repository-repositoryname''
                    # (if test repositoryNamePattern (nullish (rp_repositoryName props) ident) then []
                       else [Message (''RepositoryName: must match pattern [A-Za-z0-9][A-Za-z0-9._'' @ backslash
                                       @ ''-]{1,99}. Must match rules from https://docs.aws.amazon.com/AWSCloudFormation/latest/UserGuide/aws-resource-codeartifact-repository.html#cfn-codeartifact-repository-repositoryname'')])))))
       \<and> (rp_repositoryName props = Some ''@@@@@'' \<longrightarrow>
            Repository_new w ident props
              = (w, Inl (ConstraintViolation ''RepositoryName''
                   [Message (''RepositoryName: must match pattern [A-Za-z0-9][A-Za-z0-9._'' @ backslash
                              @ ''-]{1,99}. Must match rules from https://docs.aws.amazon.com/AWSCloudFormation/latest/UserGuide/aws-resource-codeartifact-repository.html#cfn-codeartifact-repository-repositoryname'')])))"
  by (auto simp: Repository_new_def Let_def Repository_validateProps_def assms
        validate_RepositoryName_long validate_RepositoryName_5ats nullish_def)

theorem Repository_new_name_errors_witness:
  "Repository_new example_world ''repository-1''
     (example_repository_props (replicate 101 CHR ''a'') example_idomain None None None)
     = (example_world, Inl (ConstraintViolation ''RepositoryName''
          [Message ''RepositoryName: must be less than 100 characters long. Must match rules from https://docs.aws.amazon.com/AWSCloudFormation/latest/UserGuide/aws-resource-codeartifact-repository.html#cfn-codeartifact-repository-repositoryname'']))
   \<and> Repository_new example_world ''repository-1''
     (example_repository_props (replicate 101 CHR ''@'') example_idomain None None None)
     = (example_world, Inl (ConstraintViolation ''RepositoryName''
          [Message ''RepositoryName: must be less than 100 characters long. Must match rules from https://docs.aws.amazon.com/AWSCloudFormation/latest/UserGuide/aws-resource-codeartifact-repository.html#cfn-codeartifact-repository-repositoryname'',
           Message (''RepositoryName: must match pattern [A-Za-z0-9][A-Za-z0-9._'' @ backslash
                     @ ''-]{1,99}. Must match rules from https://docs.aws.amazon.com/AWSCloudFormation/latest/UserGuide/aws-resource-codeartifact-repository.html#cfn-codeartifact-repository-repositoryname'')]))
   \<and> Repository_new example_world ''repository-1''
     (example_repository_props ''@@@@@'' example_idomain None None None)
     = (example_world, Inl (ConstraintViolation ''RepositoryName''
          [Message (''RepositoryName: must match pattern [A-Za-z0-9][A-Za-z0-9._'' @ backslash
                     @ ''-]{1,99}. Must match rules from https://docs.aws.amazon.com/AWSCloudFormation/latest/UserGuide/aws-resource-codeartifact-repository.html#cfn-codeartifact-repository-repositoryname'')]))"
proof -
  have d: "validate ''Description'' descriptionRule
             (rp_description (example_repository_props n example_idomain None None None)) = Inr ()" for n
    by (simp add: example_repository_props_def validate_Description_absent)
  have n: "validate ''DomainName''
             (domainNameRule ''https://docs.aws.amazon.com/AWSCloudFormation/latest/UserGuide/aws-resource-codeartifact-repository.html#cfn-codeartifact-repository-domainname'')
             (domainName (rp_repositoryDomain (example_repository_props n example_idomain None None None)))
           = Inr ()" for n
    by (simp add: example_repository_props_def example_idomain_def validate_DomainName_example)
  have a: "test repositoryNamePattern (replicate 101 CHR ''a'')"
    using test_repositoryNamePattern_as[of 99] by (simp add: numeral_eq_Suc)
  from Repository_new_name_errors
         [OF d [of "replicate 101 CHR ''a''"] n [of "replicate 101 CHR ''a''"],
          where ident = "''repository-1''" and w = example_world]
       Repository_new_name_errors
         [OF d [of "replicate 101 CHR ''@''"] n [of "replicate 101 CHR ''@''"],
          where ident = "''repository-1''" and w = example_world]
       Repository_new_name_errors
         [OF d [of "''@@@@@''"] n [of "''@@@@@''"],
          where ident = "''repository-1''" and w = example_world]
       a test_repositoryNamePattern_ats[of 101]
  show ?thesis
    by (simp add: example_repository_props_def nullish_def)
qed

end
